theory Spec2Isabelle
  imports Main "HOL-Library.Char_ord" "HOL-Library.List_Lexorder" "HOL-Library.Multiset"
    "HOL-Library.Sublist"
begin

section \<open>Values of the program\<close>

text \<open>
  The program works on decoded JSON: every launch, rocket and launchpad is a Python
  \<^verbatim>\<open>dict\<close> whose fields may hold any JSON value. \<open>JNull\<close> is Python's \<^verbatim>\<open>None\<close>,
  an object is the list of its items (keys distinct, as in a dict). Numbers are the
  integers; strings are lists of 8-bit characters, so a text outside ASCII is its
  UTF-8 encoding, whose bytewise order is the order of the code points.
\<close>

datatype json =
    JNull
  | JBool bool
  | JNum int
  | JStr string
  | JArr "json list"
  | JObj "(string \<times> json) list"

text \<open>The exceptions that the modelled code can raise and does not catch.\<close>

datatype error = TypeError | AttributeError

definition bind :: "error + 'a \<Rightarrow> ('a \<Rightarrow> error + 'b) \<Rightarrow> error + 'b" where
  "bind m f = (case m of Inl e \<Rightarrow> Inl e | Inr x \<Rightarrow> f x)"

text \<open>Truth value of an object, as \<^verbatim>\<open>if x\<close>, \<^verbatim>\<open>not x\<close> and \<^verbatim>\<open>x or y\<close> test it.\<close>

fun truthy :: "json \<Rightarrow> bool" where
  "truthy JNull = False"
| "truthy (JBool b) = b"
| "truthy (JNum n) = (n \<noteq> 0)"
| "truthy (JStr s) = (s \<noteq> [])"
| "truthy (JArr xs) = (xs \<noteq> [])"
| "truthy (JObj kvs) = (kvs \<noteq> [])"

definition py_or :: "json \<Rightarrow> json \<Rightarrow> json" where
  "py_or a b = (if truthy a then a else b)"

text \<open>\<^verbatim>\<open>d.get(k)\<close>: the value, \<^verbatim>\<open>None\<close> for a missing key; only a dict has \<^verbatim>\<open>get\<close>.\<close>

fun get :: "json \<Rightarrow> string \<Rightarrow> error + json" where
  "get (JObj kvs) k = Inr (case map_of kvs k of None \<Rightarrow> JNull | Some v \<Rightarrow> v)"
| "get _ k = Inl AttributeError"

text \<open>
  \<^verbatim>\<open>==\<close> on JSON values: \<^verbatim>\<open>True == 1\<close>, lists elementwise, dicts by their items,
  values of different kinds are unequal.
\<close>

fun py_eq :: "json \<Rightarrow> json \<Rightarrow> bool" where
  "py_eq JNull JNull = True"
| "py_eq (JBool a) (JBool b) = (a = b)"
| "py_eq (JBool a) (JNum n) = ((if a then 1 else 0) = n)"
| "py_eq (JNum n) (JBool b) = (n = (if b then 1 else 0))"
| "py_eq (JNum a) (JNum b) = (a = b)"
| "py_eq (JStr a) (JStr b) = (a = b)"
| "py_eq (JArr a) (JArr b) = list_all2 py_eq a b"
| "py_eq (JObj a) (JObj b) =
     (set (map fst a) = set (map fst b) \<and>
      list_all (\<lambda>(k, v). list_all (\<lambda>(k', w). if k = k' then py_eq v w else True) b) a)"
| "py_eq _ _ = False"

text \<open>
  \<^verbatim>\<open><\<close> on JSON values: strings by code point, numbers and booleans as numbers, lists
  at the first position where they differ; any other pair raises \<^verbatim>\<open>TypeError\<close>.
\<close>

function py_lt :: "json \<Rightarrow> json \<Rightarrow> error + bool" where
  "py_lt a b =
     (case (a, b) of
        (JStr s, JStr t) \<Rightarrow> Inr (s < t)
      | (JNum m, JNum n) \<Rightarrow> Inr (m < n)
      | (JNum m, JBool c) \<Rightarrow> Inr (m < (if c then 1 else 0))
      | (JBool c, JNum n) \<Rightarrow> Inr ((if c then 1 else 0) < n)
      | (JBool c, JBool d) \<Rightarrow> Inr (\<not> c \<and> d)
      | (JArr xs, JArr ys) \<Rightarrow>
          (case dropWhile (\<lambda>(x, y). py_eq x y) (zip xs ys) of
             [] \<Rightarrow> Inr (length xs < length ys)
           | (x, y) # _ \<Rightarrow> py_lt x y)
      | _ \<Rightarrow> Inl TypeError)"
  by pat_completeness auto
termination
proof (relation "measure (\<lambda>(a, b). size a)")
  show "wf (measure (\<lambda>(a, b). size a))"
    by simp
next
  fix a b u v :: json and xs ys :: "json list" and rest :: "(json \<times> json) list"
    and p :: "json \<times> json" and x y :: json
  assume "(u, v) = (a, b)" and "u = JArr xs" and "v = JArr ys"
    and "dropWhile (\<lambda>(x, y). py_eq x y) (zip xs ys) = p # rest" and "(x, y) = p"
  then have "(x, y) \<in> set (dropWhile (\<lambda>(x, y). py_eq x y) (zip xs ys))"
    by simp
  then have "(x, y) \<in> set (zip xs ys)"
    by (rule set_dropWhileD)
  then have "x \<in> set xs"
    by (rule set_zip_leftD)
  then have "size x < Suc (size_list size xs)"
    by (induction xs) auto
  with \<open>(u, v) = (a, b)\<close> \<open>u = JArr xs\<close>
  show "((x, y), a, b) \<in> measure (\<lambda>(a, b). size a)"
    by auto
qed

declare py_lt.simps [simp del]

text \<open>Only immutable values can be keys of a dict: lists and dicts are unhashable.\<close>

fun hashable :: "json \<Rightarrow> bool" where
  "hashable (JArr _) = False"
| "hashable (JObj _) = False"
| "hashable _ = True"

text \<open>
  A dict built by the program: its items in insertion order. Storing under a key that
  is already there (equal by \<^verbatim>\<open>==\<close>) replaces the value in place.
\<close>

type_synonym dict = "(json \<times> json) list"

fun dict_set :: "dict \<Rightarrow> json \<Rightarrow> json \<Rightarrow> dict" where
  "dict_set [] k v = [(k, v)]"
| "dict_set ((k', v') # kvs) k v =
     (if py_eq k' k then (k', v) # kvs else (k', v') # dict_set kvs k v)"

definition setitem :: "dict \<Rightarrow> json \<Rightarrow> json \<Rightarrow> error + dict" where
  "setitem d k v = (if hashable k then Inr (dict_set d k v) else Inl TypeError)"

fun dict_lookup :: "dict \<Rightarrow> json \<Rightarrow> json option" where
  "dict_lookup [] k = None"
| "dict_lookup ((k', v') # kvs) k = (if py_eq k' k then Some v' else dict_lookup kvs k)"

text \<open>\<^verbatim>\<open>d.get(k, default)\<close> on such a dict; the key is hashed first.\<close>

definition dict_get :: "dict \<Rightarrow> json \<Rightarrow> json \<Rightarrow> error + json" where
  "dict_get d k dflt =
     (if hashable k then Inr (case dict_lookup d k of None \<Rightarrow> dflt | Some v \<Rightarrow> v)
      else Inl TypeError)"

definition keys :: "dict \<Rightarrow> json list" where
  "keys d = map fst d"

text \<open>
  \<^verbatim>\<open>for x in v\<close>: a list gives its elements, a dict its keys, a string its characters;
  nothing else is iterable.
\<close>

fun py_iter :: "json \<Rightarrow> error + json list" where
  "py_iter (JArr xs) = Inr xs"
| "py_iter (JObj kvs) = Inr (map (\<lambda>(k, v). JStr k) kvs)"
| "py_iter (JStr s) = Inr (map (\<lambda>c. JStr [c]) s)"
| "py_iter _ = Inl TypeError"

text \<open>A \<^verbatim>\<open>for\<close> loop that updates one variable and stops at the first exception.\<close>

fun for_each :: "('s \<Rightarrow> 'a \<Rightarrow> error + 's) \<Rightarrow> 's \<Rightarrow> 'a list \<Rightarrow> error + 's" where
  "for_each f s [] = Inr s"
| "for_each f s (x # xs) = bind (f s x) (\<lambda>s'. for_each f s' xs)"

text \<open>\<^verbatim>\<open>sep.join(parts)\<close>: every part has to be a string.\<close>

fun join :: "string \<Rightarrow> json list \<Rightarrow> error + string" where
  "join sep [] = Inr []"
| "join sep [JStr s] = Inr s"
| "join sep (JStr s # p # ps) = bind (join sep (p # ps)) (\<lambda>r. Inr (s @ sep @ r))"
| "join sep (_ # ps) = Inl TypeError"

section \<open>Library functions the program calls\<close>

text \<open>
  What the program takes from Python and its libraries and what no claim depends on is
  a parameter: \<open>str_of\<close> is \<^verbatim>\<open>str()\<close> on a value that is not a string (inside an
  f-string), \<open>fromisoformat\<close> is \<^verbatim>\<open>datetime.fromisoformat\<close> (\<open>None\<close> when it raises),
  \<open>strftime\<close> is \<^verbatim>\<open>dt.strftime("%Y-%m-%d %H:%M UTC")\<close> (\<open>None\<close> when it raises).
\<close>

record 'dt pylib =
  str_of :: "json \<Rightarrow> string"
  fromisoformat :: "string \<Rightarrow> 'dt option"
  strftime :: "'dt \<Rightarrow> string option"

definition format_value :: "'dt pylib \<Rightarrow> json \<Rightarrow> string" where
  "format_value L v = (case v of JStr s \<Rightarrow> s | _ \<Rightarrow> str_of L v)"

section \<open>The fetch wrapper\<close>

text \<open>
  What the \<^verbatim>\<open>try\<close> block of \<open>fetch_json\<close> does for a path is the environment of the
  program: \<^verbatim>\<open>requests\<close> raises a \<^verbatim>\<open>RequestException\<close> (connection error, timeout,
  the \<^verbatim>\<open>HTTPError\<close> of \<^verbatim>\<open>raise_for_status\<close>), or the decoded body is returned.
\<close>

datatype http_result = RequestException string | Payload json

type_synonym api = "string \<Rightarrow> http_result"

definition API_BASE :: string where
  "API_BASE = ''https://api.spacexdata.com/v5''"

text \<open>The value returned, and the lines printed on the console.\<close>

definition fetch_json :: "api \<Rightarrow> string \<Rightarrow> json \<times> string list" where
  "fetch_json net path =
     (let url = API_BASE @ path in
      case net path of
        Payload j \<Rightarrow> (j, [])
      | RequestException e \<Rightarrow>
          (JNull, [''[bold red]Error:[/bold red] Failed to fetch '' @ url @ [CHR 0x0A] @ e]))"

section \<open>Reference-data loaders\<close>

definition rocket_step :: "dict \<Rightarrow> json \<Rightarrow> error + dict" where
  "rocket_step mapping r =
     bind (get r ''id'') (\<lambda>ident.
     bind (get r ''name'') (\<lambda>nm.
       let name = py_or nm (JStr ''Unknown rocket'') in
       if truthy ident then setitem mapping ident name else Inr mapping))"

definition load_rocket_map :: "api \<Rightarrow> error + dict" where
  "load_rocket_map net =
     (let rockets = py_or (fst (fetch_json net ''/rockets'')) (JArr []) in
      bind (py_iter rockets) (for_each rocket_step []))"

definition launchpad_step :: "'dt pylib \<Rightarrow> dict \<Rightarrow> json \<Rightarrow> error + dict" where
  "launchpad_step L mapping p =
     bind (get p ''id'') (\<lambda>ident.
     bind (get p ''name'') (\<lambda>nm.
     bind (get p ''locality'') (\<lambda>lc.
     bind (get p ''region'') (\<lambda>rg.
       let name = py_or nm (JStr ''Unknown pad'');
           locality = py_or lc (JStr '''');
           region = py_or rg (JStr '''')
       in bind (join '', '' (filter truthy [locality, region])) (\<lambda>loc.
            setitem mapping ident
              (if loc \<noteq> [] then JStr (format_value L name @ '' ('' @ loc @ '')'')
               else name))))))"

definition load_launchpad_map :: "'dt pylib \<Rightarrow> api \<Rightarrow> error + dict" where
  "load_launchpad_map L net =
     (let pads = py_or (fst (fetch_json net ''/launchpads'')) (JArr []) in
      bind (py_iter pads) (for_each (launchpad_step L) []))"

section \<open>Sorting a list in place\<close>

text \<open>
  \<^verbatim>\<open>xs.sort(key=f, reverse=r)\<close> computes the key of every element first, then sorts
  the elements by their keys with \<^verbatim>\<open><\<close>, stably; with \<^verbatim>\<open>reverse=True\<close> the list is
  reversed before and after the sort, which keeps elements of equal keys in their
  order. A comparison that raises ends the sort. The model inserts from the right; the
  built-in sort picks its comparisons differently, with the same result whenever the
  keys are strings.
\<close>

fun map_all :: "('a \<Rightarrow> error + 'b) \<Rightarrow> 'a list \<Rightarrow> error + 'b list" where
  "map_all f [] = Inr []"
| "map_all f (x # xs) = bind (f x) (\<lambda>y. bind (map_all f xs) (\<lambda>ys. Inr (y # ys)))"

fun insort_py :: "json \<times> 'a \<Rightarrow> (json \<times> 'a) list \<Rightarrow> error + (json \<times> 'a) list" where
  "insort_py x [] = Inr [x]"
| "insort_py x (y # ys) =
     bind (py_lt (fst y) (fst x)) (\<lambda>lt.
       if lt then bind (insort_py x ys) (\<lambda>zs. Inr (y # zs)) else Inr (x # y # ys))"

fun sort_pairs :: "(json \<times> 'a) list \<Rightarrow> error + (json \<times> 'a) list" where
  "sort_pairs [] = Inr []"
| "sort_pairs (x # xs) = bind (sort_pairs xs) (insort_py x)"

definition list_sort :: "('a \<Rightarrow> error + json) \<Rightarrow> bool \<Rightarrow> 'a list \<Rightarrow> error + 'a list" where
  "list_sort key reverse xs =
     bind (map_all key xs) (\<lambda>ks.
       let decorated = zip ks xs in
       bind (sort_pairs (if reverse then rev decorated else decorated)) (\<lambda>sorted.
         Inr (map snd (if reverse then rev sorted else sorted))))"

text \<open>\<^verbatim>\<open>xs[:n]\<close>: a negative \<open>n\<close> counts from the end.\<close>

definition slice_to :: "'a list \<Rightarrow> int \<Rightarrow> 'a list" where
  "slice_to xs n = (if 0 \<le> n then take (nat n) xs else take (length xs - nat (- n)) xs)"

section \<open>Launch-list loaders\<close>

text \<open>The sort key \<^verbatim>\<open>lambda x: x.get("date_utc") or ""\<close>.\<close>

definition date_key :: "json \<Rightarrow> error + json" where
  "date_key x = bind (get x ''date_utc'') (\<lambda>d. Inr (py_or d (JStr [])))"

text \<open>Only a list has the method \<^verbatim>\<open>sort\<close>.\<close>

definition get_upcoming_launches :: "api \<Rightarrow> error + json list" where
  "get_upcoming_launches net =
     (case py_or (fst (fetch_json net ''/launches/upcoming'')) (JArr []) of
        JArr launches \<Rightarrow> list_sort date_key False launches
      | _ \<Rightarrow> Inl AttributeError)"

definition get_past_launches :: "int \<Rightarrow> api \<Rightarrow> error + json list" where
  "get_past_launches limit net =
     (case py_or (fst (fetch_json net ''/launches/past'')) (JArr []) of
        JArr launches \<Rightarrow>
          bind (list_sort date_key True launches) (\<lambda>sorted. Inr (slice_to sorted limit))
      | _ \<Rightarrow> Inl AttributeError)"

section \<open>Formatting helpers\<close>

text \<open>\<^verbatim>\<open>s.replace(old, new)\<close> for a pattern of one character.\<close>

definition replace :: "char \<Rightarrow> string \<Rightarrow> string \<Rightarrow> string" where
  "replace old new s = concat (map (\<lambda>c. if c = old then new else [c]) s)"

text \<open>The placeholder of an absent timestamp: an em dash (U+2014) in UTF-8.\<close>

definition em_dash :: string where
  "em_dash = [CHR 0xE2, CHR 0x80, CHR 0x94]"

text \<open>
  The \<^verbatim>\<open>try\<close> block catches every exception: the \<^verbatim>\<open>AttributeError\<close> of a value
  without \<^verbatim>\<open>replace\<close>, the \<^verbatim>\<open>ValueError\<close> of the parser.
\<close>

definition format_datetime :: "'dt pylib \<Rightarrow> json \<Rightarrow> json" where
  "format_datetime L iso_str =
     (if \<not> truthy iso_str then JStr em_dash
      else case iso_str of
             JStr s \<Rightarrow>
               (case fromisoformat L (replace CHR ''Z'' ''+00:00'' s) of
                  Some dt \<Rightarrow> (case strftime L dt of Some r \<Rightarrow> JStr r | None \<Rightarrow> iso_str)
                | None \<Rightarrow> iso_str)
           | _ \<Rightarrow> iso_str)"

section \<open>Table and detail views\<close>

text \<open>The cells of one table row, as they are handed to \<^verbatim>\<open>table.add_row\<close>.\<close>

record table_row =
  row_idx :: nat
  row_name :: json
  row_date :: json
  row_rocket_name :: json
  row_pad_name :: json
  row_success_str :: string

definition launch_row :: "'dt pylib \<Rightarrow> dict \<Rightarrow> dict \<Rightarrow> nat \<times> json \<Rightarrow> error + table_row" where
  "launch_row L rocket_map pad_map il =
     (case il of (idx, launch) \<Rightarrow>
     bind (get launch ''name'') (\<lambda>nm.
     bind (get launch ''date_utc'') (\<lambda>d.
     bind (get launch ''rocket'') (\<lambda>rk.
     bind (dict_get rocket_map rk (JStr ''Unknown'')) (\<lambda>rocket_name.
     bind (get launch ''launchpad'') (\<lambda>pd.
     bind (dict_get pad_map pd (JStr ''Unknown'')) (\<lambda>pad_name.
     bind (get launch ''success'') (\<lambda>success.
       Inr \<lparr>row_idx = idx,
            row_name = py_or nm (JStr ''(no name)''),
            row_date = format_datetime L d,
            row_rocket_name = rocket_name,
            row_pad_name = pad_name,
            row_success_str =
              (if success = JBool True
                 then ''[green]'' @ [CHR 0xE2, CHR 0x9C, CHR 0x94] @ ''[/green]''
               else if success = JBool False
                 then ''[red]'' @ [CHR 0xE2, CHR 0x9C, CHR 0x96] @ ''[/red]''
               else ''[yellow]?[/yellow]'')\<rparr>))))))))"

datatype table_view = No_launches_panel string | Table string "table_row list"

text \<open>\<^verbatim>\<open>enumerate(launches, start=i)\<close>.\<close>

fun enumerate_from :: "nat \<Rightarrow> 'a list \<Rightarrow> (nat \<times> 'a) list" where
  "enumerate_from i [] = []"
| "enumerate_from i (x # xs) = (i, x) # enumerate_from (Suc i) xs"

definition show_launch_table :: "'dt pylib \<Rightarrow> api \<Rightarrow> string \<Rightarrow> json list \<Rightarrow> error + table_view" where
  "show_launch_table L net title launches =
     (if launches = [] then Inr (No_launches_panel title)
      else
        bind (load_rocket_map net) (\<lambda>rocket_map.
        bind (load_launchpad_map L net) (\<lambda>pad_map.
        bind (map_all (launch_row L rocket_map pad_map) (enumerate_from 1 launches)) (\<lambda>rows.
          Inr (Table title rows)))))"

text \<open>The values the detail panel is built from.\<close>

record details_view =
  det_name :: json
  det_flight_number :: json
  det_date :: json
  det_rocket_name :: json
  det_pad_name :: json
  det_success_str :: string
  det_details :: json
  det_webcast :: json
  det_article :: json
  det_wiki :: json

definition link :: "json \<Rightarrow> string \<Rightarrow> error + json" where
  "link launch k =
     bind (get launch ''links'') (\<lambda>ls.
     bind (get (py_or ls (JObj [])) k) (\<lambda>v. Inr (py_or v (JStr ''N/A''))))"

definition show_launch_details :: "'dt pylib \<Rightarrow> api \<Rightarrow> json \<Rightarrow> error + details_view" where
  "show_launch_details L net launch =
     bind (load_rocket_map net) (\<lambda>rocket_map.
     bind (load_launchpad_map L net) (\<lambda>pad_map.
     bind (get launch ''name'') (\<lambda>nm.
     bind (get launch ''date_utc'') (\<lambda>d.
     bind (get launch ''rocket'') (\<lambda>rk.
     bind (dict_get rocket_map rk (JStr ''Unknown rocket'')) (\<lambda>rocket_name.
     bind (get launch ''launchpad'') (\<lambda>pd.
     bind (dict_get pad_map pd (JStr ''Unknown launchpad'')) (\<lambda>pad_name.
     bind (get launch ''success'') (\<lambda>success.
     bind (get launch ''details'') (\<lambda>dt.
     bind (get launch ''flight_number'') (\<lambda>flight_number.
     bind (link launch ''webcast'') (\<lambda>webcast.
     bind (link launch ''article'') (\<lambda>article.
     bind (link launch ''wikipedia'') (\<lambda>wiki.
       Inr \<lparr>det_name = py_or nm (JStr ''(no name)''),
            det_flight_number = flight_number,
            det_date = format_datetime L d,
            det_rocket_name = rocket_name,
            det_pad_name = pad_name,
            det_success_str =
              (if success = JBool True then ''[green]Success[/green]''
               else if success = JBool False then ''[red]Failure[/red]''
               else ''[yellow]Unknown / upcoming[/yellow]''),
            det_details = py_or dt (JStr ''No description provided.''),
            det_webcast = webcast,
            det_article = article,
            det_wiki = wiki\<rparr>))))))))))))))"

section \<open>Search by mission name\<close>

text \<open>\<^verbatim>\<open>str.lower\<close> and \<^verbatim>\<open>str.strip\<close> on ASCII text; \<^verbatim>\<open>q in s\<close> on strings.\<close>

definition lower_char :: "char \<Rightarrow> char" where
  "lower_char c =
     (if CHR ''A'' \<le> c \<and> c \<le> CHR ''Z'' then char_of (of_char c + (32 :: nat)) else c)"

definition lower :: "string \<Rightarrow> string" where
  "lower s = map lower_char s"

definition is_space :: "char \<Rightarrow> bool" where
  "is_space c = (of_char c \<in> {9, 10, 11, 12, 13, 28, 29, 30, 31, 32 :: nat})"

definition strip :: "string \<Rightarrow> string" where
  "strip s = rev (dropWhile is_space (rev (dropWhile is_space s)))"

fun contains :: "string \<Rightarrow> string \<Rightarrow> bool" where
  "contains q [] = (q = [])"
| "contains q (c # cs) = (prefix q (c # cs) \<or> contains q cs)"

text \<open>Only a string has the method \<^verbatim>\<open>lower\<close>.\<close>

fun str_lower :: "json \<Rightarrow> error + string" where
  "str_lower (JStr s) = Inr (lower s)"
| "str_lower _ = Inl AttributeError"

fun filter_all :: "('a \<Rightarrow> error + bool) \<Rightarrow> 'a list \<Rightarrow> error + 'a list" where
  "filter_all f [] = Inr []"
| "filter_all f (x # xs) =
     bind (f x) (\<lambda>b. bind (filter_all f xs) (\<lambda>ys. Inr (if b then x # ys else ys)))"

text \<open>
  What \<open>search_launches\<close> does with the answer to its prompt: it asks for nothing
  when no launch is loaded, returns at once on a blank answer, reports that nothing
  matched, or shows the table of the matches under a title.
\<close>

datatype search_outcome =
    No_launches_loaded
  | No_search
  | No_matches string
  | Search_results string "json list"

definition name_matches :: "string \<Rightarrow> json \<Rightarrow> error + bool" where
  "name_matches query_lower l =
     bind (get l ''name'') (\<lambda>nm.
     bind (str_lower (py_or nm (JStr []))) (\<lambda>s. Inr (contains query_lower s)))"

definition search_launches :: "json list \<Rightarrow> string \<Rightarrow> error + search_outcome" where
  "search_launches launches answer =
     (if launches = [] then Inr No_launches_loaded
      else
        let query = strip answer in
        if query = [] then Inr No_search
        else
          let query_lower = lower query in
          bind (filter_all (name_matches query_lower) launches) (\<lambda>matches.
            if matches = [] then Inr (No_matches query)
            else Inr (Search_results (''Search results for '' @ [CHR 0x27] @ query @ [CHR 0x27])
                        matches)))"

section \<open>Notions used to state the properties\<close>

text \<open>The field of a record, \<open>JNull\<close> when the record has none (or is no record).\<close>

definition field :: "json \<Rightarrow> string \<Rightarrow> json" where
  "field p k = (case get p k of Inr v \<Rightarrow> v | Inl e \<Rightarrow> JNull)"

fun as_text :: "json \<Rightarrow> string" where
  "as_text (JStr s) = s"
| "as_text _ = []"

fun is_record :: "json \<Rightarrow> bool" where
  "is_record (JObj kvs) = True"
| "is_record _ = False"

fun is_text :: "json \<Rightarrow> bool" where
  "is_text (JStr s) = True"
| "is_text _ = False"

text \<open>
  The timestamp key of a launch as a string, and the launches whose key is one: records
  whose \<^verbatim>\<open>date_utc\<close> is a string, or is missing, null or another false value.
\<close>

definition timestamp_key :: "json \<Rightarrow> string" where
  "timestamp_key l = as_text (py_or (field l ''date_utc'') (JStr []))"

definition dated :: "json \<Rightarrow> bool" where
  "dated l = (is_record l \<and> is_text (py_or (field l ''date_utc'') (JStr [])))"

text \<open>Values of the same kind are the ones that \<^verbatim>\<open><\<close> can compare.\<close>

fun kind :: "json \<Rightarrow> nat" where
  "kind (JStr s) = 0"
| "kind (JNum n) = 1"
| "kind (JBool b) = 1"
| "kind (JArr xs) = 2"
| "kind JNull = 3"
| "kind (JObj kvs) = 4"

text \<open>The name a launch is searched by, and the launches that have such a name.\<close>

definition launch_name :: "json \<Rightarrow> string" where
  "launch_name l = as_text (py_or (field l ''name'') (JStr []))"

definition named :: "json \<Rightarrow> bool" where
  "named l = (is_record l \<and> is_text (py_or (field l ''name'') (JStr [])))"

text \<open>
  The display name of a launchpad as the specification words it: the name, then in
  parentheses the non-empty ones of locality and region, joined by a comma; no
  parentheses when both are empty.
\<close>

fun comma_join :: "string list \<Rightarrow> string" where
  "comma_join [] = []"
| "comma_join [s] = s"
| "comma_join (s # t # ts) = s @ '', '' @ comma_join (t # ts)"

definition pad_display :: "string \<Rightarrow> string \<Rightarrow> string \<Rightarrow> string" where
  "pad_display name locality region =
     (let parts = filter (\<lambda>part. part \<noteq> []) [locality, region] in
      if parts = [] then name else name @ '' ('' @ comma_join parts @ '')'')"

definition pad_label :: "json \<Rightarrow> string" where
  "pad_label p =
     pad_display (as_text (py_or (field p ''name'') (JStr ''Unknown pad'')))
       (as_text (py_or (field p ''locality'') (JStr [])))
       (as_text (py_or (field p ''region'') (JStr [])))"

text \<open>
  A launchpad entry as the API sends it: a record with a hashable id whose name,
  locality and region are strings where they are given.
\<close>

definition well_formed_pad :: "json \<Rightarrow> bool" where
  "well_formed_pad p =
     (is_record p \<and> hashable (field p ''id'')
      \<and> is_text (py_or (field p ''name'') (JStr ''Unknown pad''))
      \<and> is_text (py_or (field p ''locality'') (JStr []))
      \<and> is_text (py_or (field p ''region'') (JStr [])))"

text \<open>A launch whose rocket and launchpad references can be looked up in a dict.\<close>

definition renderable :: "json \<Rightarrow> bool" where
  "renderable l =
     (is_record l \<and> hashable (field l ''rocket'') \<and> hashable (field l ''launchpad''))"

text \<open>
  An instance of the library for running the program on examples. Its parser accepts
  the form \<^verbatim>\<open>YYYY-MM-DDTHH:MM:SS[.fff]+00:00\<close> only and keeps the date and the
  time of day; its formatter prints them as \<^verbatim>\<open>%Y-%m-%d %H:%M UTC\<close> does.
\<close>

definition example_lib :: "(string \<times> string) pylib" where
  "example_lib =
     \<lparr>str_of = (\<lambda>v. []),
      fromisoformat = (\<lambda>s.
        if 25 \<le> length s \<and> s ! 10 = CHR ''T'' \<and> drop (length s - 6) s = ''+00:00''
        then Some (take 10 s, take 5 (drop 11 s)) else None),
      strftime = (\<lambda>(d, t). Some (d @ '' '' @ t @ '' UTC''))\<rparr>"

section \<open>Basic facts\<close>

lemma bind_Inr [simp]: "bind (Inr x) f = f x"
  by (simp add: bind_def)

lemma bind_Inl [simp]: "bind (Inl e) f = Inl e"
  by (simp add: bind_def)

lemma get_field: "is_record p \<Longrightarrow> get p k = Inr (field p k)"
  by (cases p) (simp_all add: field_def)

lemma fetched: "net path = Payload j \<Longrightarrow> fst (fetch_json net path) = j"
  by (simp add: fetch_json_def)

lemma py_or_JArr [simp]: "py_or (JArr xs) (JArr []) = JArr xs"
  by (simp add: py_or_def)

lemma py_lt_text: "py_lt (JStr s) (JStr t) = Inr (s < t)"
  by (simp add: py_lt.simps)

section \<open>The sort on string keys is the stable insertion sort\<close>

lemma date_key_dated: "dated l \<Longrightarrow> date_key l = Inr (JStr (timestamp_key l))"
  unfolding dated_def date_key_def timestamp_key_def
  by (cases "py_or (field l ''date_utc'') (JStr [])") (simp_all add: get_field)

lemma map_all_date_key:
  "list_all dated xs \<Longrightarrow> map_all date_key xs = Inr (map (\<lambda>l. JStr (timestamp_key l)) xs)"
  by (induction xs) (simp_all add: date_key_dated)

lemma insort_py_text:
  "list_all (\<lambda>p. is_text (fst p)) (x # ys) \<Longrightarrow>
   insort_py x ys = Inr (insort_key (\<lambda>p. as_text (fst p)) x ys)"
proof (induction ys)
  case Nil
  then show ?case by simp
next
  case (Cons y ys)
  obtain s t where "fst x = JStr s" "fst y = JStr t"
    using Cons.prems by (cases "fst x"; cases "fst y") simp_all
  with Cons show ?case
    by (auto simp: py_lt_text not_le)
qed

lemma list_all_insort_key [simp]: "list_all P (insort_key f x xs) = (P x \<and> list_all P xs)"
  by (induction xs) auto

lemma list_all_sort_key [simp]: "list_all P (sort_key f xs) = list_all P xs"
  by (induction xs) auto

lemma sort_pairs_text:
  "list_all (\<lambda>p. is_text (fst p)) ps \<Longrightarrow>
   sort_pairs ps = Inr (sort_key (\<lambda>p. as_text (fst p)) ps)"
  by (induction ps) (simp_all add: insort_py_text)

lemma insort_key_map:
  "insort_key f (m x) (map m xs) = map m (insort_key (\<lambda>x. f (m x)) x xs)"
  by (induction xs) simp_all

lemma sort_key_map: "sort_key f (map m xs) = map m (sort_key (\<lambda>x. f (m x)) xs)"
  by (induction xs) (simp_all add: insort_key_map)

lemma zip_map_self: "zip (map h xs) xs = map (\<lambda>x. (h x, x)) xs"
  by (induction xs) simp_all

lemma list_sort_dated:
  assumes "list_all dated xs"
  shows "list_sort date_key False xs = Inr (sort_key timestamp_key xs)"
    and "list_sort date_key True xs = Inr (rev (sort_key timestamp_key (rev xs)))"
proof -
  let ?m = "\<lambda>l. (JStr (timestamp_key l), l)"
  have ktext: "list_all (\<lambda>p. is_text (fst p)) (map ?m ys)" for ys
    by (induction ys) simp_all
  have srt: "sort_pairs (map ?m ys) = Inr (map ?m (sort_key timestamp_key ys))" for ys
    using sort_pairs_text [OF ktext, of ys] by (simp add: sort_key_map)
  show "list_sort date_key False xs = Inr (sort_key timestamp_key xs)"
    using assms srt [of xs]
    by (simp add: list_sort_def map_all_date_key zip_map_self comp_def)
  show "list_sort date_key True xs = Inr (rev (sort_key timestamp_key (rev xs)))"
    using assms srt [of "rev xs"]
    by (simp add: list_sort_def map_all_date_key zip_map_self rev_map [symmetric] comp_def)
qed

lemma missing_first:
  fixes f :: "'a \<Rightarrow> string"
  shows "sorted (map f xs) \<Longrightarrow> xs = filter (\<lambda>x. f x = []) xs @ filter (\<lambda>x. f x \<noteq> []) xs"
proof (induction xs)
  case Nil
  then show ?case by simp
next
  case (Cons x xs)
  show ?case
  proof (cases "f x = []")
    case True
    with Cons show ?thesis by simp
  next
    case False
    have "\<forall>y\<in>set xs. f x \<le> f y"
      using Cons.prems by simp
    then have "\<forall>y\<in>set xs. f y \<noteq> []"
      using False by (metis Nil_le_Cons antisym_conv list.exhaust)
    then have "filter (\<lambda>x. f x = []) xs = []" "filter (\<lambda>x. f x \<noteq> []) xs = xs"
      by (simp_all add: filter_empty_conv filter_id_conv)
    with False show ?thesis by simp
  qed
qed

lemma descending_split:
  assumes "sorted (rev (map f ds))"
  shows "\<forall>a\<in>set (take n ds). \<forall>b\<in>set (drop n ds). f b \<le> f a"
proof -
  have "sorted (rev (map f (take n ds @ drop n ds)))"
    using assms by simp
  then show ?thesis
    unfolding map_append rev_append sorted_append by auto
qed

section \<open>The upcoming-launch loader\<close>

text \<open>
  Claim C4. When the upcoming endpoint answers with a list of launch records whose
  \<^verbatim>\<open>date_utc\<close> is a string or is missing, the loader returns the whole collection
  (the same records, as a multiset), ascending by the timestamp key, stably (the
  records of any one key keep the order in which they were fetched), and the records
  without a timestamp, whose key is the empty string, come first, in their fetched order,
  before every record that has one.
\<close>

theorem upcoming_sorted_missing_first:
  assumes "net ''/launches/upcoming'' = Payload (JArr launches)"
    and "list_all dated launches"
  shows "\<exists>res. get_upcoming_launches net = Inr res
           \<and> mset res = mset launches
           \<and> sorted (map timestamp_key res)
           \<and> (\<forall>k. filter (\<lambda>l. timestamp_key l = k) res
                   = filter (\<lambda>l. timestamp_key l = k) launches)
           \<and> res = filter (\<lambda>l. timestamp_key l = []) launches
                   @ filter (\<lambda>l. timestamp_key l \<noteq> []) res"
proof -
  let ?res = "sort_key timestamp_key launches"
  have run: "get_upcoming_launches net = Inr ?res"
    using assms by (simp add: get_upcoming_launches_def fetched list_sort_dated(1))
  have stable: "filter (\<lambda>l. timestamp_key l = k) ?res
                = filter (\<lambda>l. timestamp_key l = k) launches" for k
    by (rule sort_key_stable)
  have "?res = filter (\<lambda>l. timestamp_key l = []) ?res
               @ filter (\<lambda>l. timestamp_key l \<noteq> []) ?res"
    by (rule missing_first) simp
  then have "?res = filter (\<lambda>l. timestamp_key l = []) launches
               @ filter (\<lambda>l. timestamp_key l \<noteq> []) ?res"
    by (simp only: stable)
  with run stable show ?thesis
    by (intro exI [of _ ?res]) simp
qed

theorem upcoming_sorted_missing_first_witness:
  "let launches = [JObj [(''name'', JStr ''CRS-30''), (''date_utc'', JStr ''2024-03-21'')],
                   JObj [(''name'', JStr ''TBD'')],
                   JObj [(''name'', JStr ''Crew-8''), (''date_utc'', JStr ''2024-03-04'')]]
   in list_all dated launches
      \<and> (\<exists>res. get_upcoming_launches (\<lambda>path. Payload (JArr launches)) = Inr res
           \<and> mset res = mset launches
           \<and> sorted (map timestamp_key res)
           \<and> (\<forall>k. filter (\<lambda>l. timestamp_key l = k) res
                   = filter (\<lambda>l. timestamp_key l = k) launches)
           \<and> res = filter (\<lambda>l. timestamp_key l = []) launches
                   @ filter (\<lambda>l. timestamp_key l \<noteq> []) res)"
proof -
  let ?xs = "[JObj [(''name'', JStr ''CRS-30''), (''date_utc'', JStr ''2024-03-21'')],
              JObj [(''name'', JStr ''TBD'')],
              JObj [(''name'', JStr ''Crew-8''), (''date_utc'', JStr ''2024-03-04'')]]"
  have h: "list_all dated ?xs"
    by (simp add: dated_def field_def py_or_def)
  show ?thesis
    unfolding Let_def
    using h upcoming_sorted_missing_first [of "\<lambda>path. Payload (JArr ?xs)" ?xs, OF refl h]
    by (rule conjI)
qed

section \<open>The past-launch loader\<close>

text \<open>
  Claim C3. When the past endpoint answers with a list of launch records whose
  \<^verbatim>\<open>date_utc\<close> is a string or is missing, and the limit \<open>N\<close> is not negative, the
  loader returns \<open>min N (number fetched)\<close> records, so never more than \<open>N\<close>; they are
  records of the fetched collection, in descending order of the timestamp key, and
  every fetched record left out has a key no greater than the key of any record
  returned: the records returned are the \<open>N\<close> of greatest key.
\<close>

theorem past_launches_top_n:
  assumes "net ''/launches/past'' = Payload (JArr launches)"
    and "list_all dated launches"
    and "0 \<le> limit"
  shows "\<exists>res. get_past_launches limit net = Inr res
           \<and> length res = min (nat limit) (length launches)
           \<and> int (length res) \<le> limit
           \<and> mset res \<subseteq># mset launches
           \<and> sorted (rev (map timestamp_key res))
           \<and> (\<forall>a\<in>set res. \<forall>b\<in>#mset launches - mset res.
                 timestamp_key b \<le> timestamp_key a)"
proof -
  let ?ds = "rev (sort_key timestamp_key (rev launches))"
  let ?res = "take (nat limit) ?ds"
  have dated_rev: "list_all dated (rev launches)"
    using assms(2) by (simp add: list_all_iff)
  have run: "get_past_launches limit net = Inr ?res"
    using assms by (simp add: get_past_launches_def fetched list_sort_dated(2) slice_to_def)
  have perm: "mset ?ds = mset launches"
    by simp
  have desc: "sorted (rev (map timestamp_key ?ds))"
    by (simp add: rev_map)
  have len: "length ?res = min (nat limit) (length launches)"
    by simp
  have "mset (?res @ drop (nat limit) ?ds) = mset launches"
    using perm by (simp only: append_take_drop_id)
  then have split: "mset ?res + mset (drop (nat limit) ?ds) = mset launches"
    by (simp only: mset_append)
  have sub: "mset ?res \<subseteq># mset launches"
    unfolding split [symmetric] by (rule mset_subset_eq_add_left)
  have rest: "mset launches - mset ?res = mset (drop (nat limit) ?ds)"
    unfolding split [symmetric] by (rule add_diff_cancel_left')
  have "sorted (rev (map timestamp_key (?res @ drop (nat limit) ?ds)))"
    using desc by (simp only: append_take_drop_id)
  then have "sorted (rev (map timestamp_key ?res))"
    unfolding map_append rev_append sorted_append by (elim conjE)
  moreover have "\<forall>a\<in>set ?res. \<forall>b\<in>#mset launches - mset ?res.
      timestamp_key b \<le> timestamp_key a"
    unfolding rest using descending_split [OF desc] by simp
  ultimately show ?thesis
    using run len sub assms(3) by (intro exI [of _ ?res]) auto
qed

theorem past_launches_top_n_witness:
  "let launches = [JObj [(''name'', JStr ''CRS-1''), (''date_utc'', JStr ''2012-10-08'')],
                   JObj [(''name'', JStr ''Crew-1''), (''date_utc'', JStr ''2020-11-16'')],
                   JObj [(''name'', JStr ''Transporter-1''), (''date_utc'', JStr ''2021-01-24'')]]
   in list_all dated launches \<and> (0 :: int) \<le> 2
      \<and> (\<exists>res. get_past_launches 2 (\<lambda>path. Payload (JArr launches)) = Inr res
           \<and> length res = min (nat 2) (length launches)
           \<and> int (length res) \<le> 2
           \<and> mset res \<subseteq># mset launches
           \<and> sorted (rev (map timestamp_key res))
           \<and> (\<forall>a\<in>set res. \<forall>b\<in>#mset launches - mset res.
                 timestamp_key b \<le> timestamp_key a))"
proof -
  let ?xs = "[JObj [(''name'', JStr ''CRS-1''), (''date_utc'', JStr ''2012-10-08'')],
              JObj [(''name'', JStr ''Crew-1''), (''date_utc'', JStr ''2020-11-16'')],
              JObj [(''name'', JStr ''Transporter-1''), (''date_utc'', JStr ''2021-01-24'')]]"
  have h: "list_all dated ?xs"
    by (simp add: dated_def field_def py_or_def)
  have n: "(0 :: int) \<le> 2"
    by simp
  show ?thesis
    unfolding Let_def
    using h n past_launches_top_n [of "\<lambda>path. Payload (JArr ?xs)" ?xs 2, OF refl h n]
    by (intro conjI)
qed

section \<open>Sorting ascending, reversing, sorting descending\<close>

text \<open>
  Claim C2, as stated, fails: two launches of different dates, sorted ascending, then
  reversed, then sorted descending, come out in descending order, which is not the
  ascending list.
\<close>

theorem sort_round_trip_counterexample:
  "list_sort date_key False
     [JObj [(''date_utc'', JStr ''2020'')], JObj [(''date_utc'', JStr ''2021'')]]
     = Inr [JObj [(''date_utc'', JStr ''2020'')], JObj [(''date_utc'', JStr ''2021'')]]
   \<and> list_sort date_key True
     (rev [JObj [(''date_utc'', JStr ''2020'')], JObj [(''date_utc'', JStr ''2021'')]])
     = Inr [JObj [(''date_utc'', JStr ''2021'')], JObj [(''date_utc'', JStr ''2020'')]]
   \<and> [JObj [(''date_utc'', JStr ''2021'')], JObj [(''date_utc'', JStr ''2020'')]]
     \<noteq> [JObj [(''date_utc'', JStr ''2020'')], JObj [(''date_utc'', JStr ''2021'')]]"
  by (simp add: list_sort_def date_key_def py_or_def py_lt_text)

text \<open>
  Claim C2, amended. For every list of launch records whose \<^verbatim>\<open>date_utc\<close> is a string
  or is missing, the ascending sort succeeds and gives a list in ascending order of the
  timestamp key, and the descending sort of its reversal gives that reversal back
  unchanged, also when records have equal keys: the result is the ascending list
  reversed, not the ascending list.
\<close>

theorem descending_sort_of_reversed_ascending:
  assumes "list_all dated launches"
  shows "\<exists>asc. list_sort date_key False launches = Inr asc
           \<and> sorted (map timestamp_key asc)
           \<and> list_sort date_key True (rev asc) = Inr (rev asc)"
proof -
  let ?asc = "sort_key timestamp_key launches"
  have "list_all dated (rev ?asc)"
    using assms by (simp add: list_all_iff)
  then have "list_sort date_key True (rev ?asc) = Inr (rev (sort_key timestamp_key ?asc))"
    by (simp add: list_sort_dated(2))
  also have "sort_key timestamp_key ?asc = ?asc"
    by (rule sort_key_id_if_sorted) simp
  finally show ?thesis
    using assms by (intro exI [of _ ?asc]) (simp add: list_sort_dated(1))
qed

theorem descending_sort_of_reversed_ascending_witness:
  "let launches = [JObj [(''name'', JStr ''B''), (''date_utc'', JStr ''2021'')],
                   JObj [(''name'', JStr ''A''), (''date_utc'', JStr ''2020'')],
                   JObj [(''name'', JStr ''C''), (''date_utc'', JStr ''2021'')]]
   in list_all dated launches
      \<and> (\<exists>asc. list_sort date_key False launches = Inr asc
           \<and> sorted (map timestamp_key asc)
           \<and> list_sort date_key True (rev asc) = Inr (rev asc))"
proof -
  let ?xs = "[JObj [(''name'', JStr ''B''), (''date_utc'', JStr ''2021'')],
              JObj [(''name'', JStr ''A''), (''date_utc'', JStr ''2020'')],
              JObj [(''name'', JStr ''C''), (''date_utc'', JStr ''2021'')]]"
  have h: "list_all dated ?xs"
    by (simp add: dated_def field_def py_or_def)
  show ?thesis
    unfolding Let_def
    using h descending_sort_of_reversed_ascending [of ?xs, OF h]
    by (rule conjI)
qed

section \<open>Reference-data loaders and entries without an id\<close>

text \<open>
  Claim C1 holds for the rocket loader and fails for the launchpad loader, which has no
  test of the id: a launchpad entry without an id is stored under the key \<^verbatim>\<open>None\<close>,
  while a rocket entry without an id is skipped.
\<close>

theorem launchpad_without_id_is_indexed:
  "load_launchpad_map L (\<lambda>path. Payload (JArr [JObj [(''name'', JStr ''LC-39A'')]]))
     = Inr [(JNull, JStr ''LC-39A'')]
   \<and> load_rocket_map (\<lambda>path. Payload (JArr [JObj [(''name'', JStr ''Falcon 9'')]]))
     = Inr []"
  by (simp add: load_launchpad_map_def load_rocket_map_def fetch_json_def py_or_def
      launchpad_step_def rocket_step_def setitem_def)

end
